theory Spec2Isabelle
  imports Main "HOL-Library.Sublist"
begin

section \<open>JavaScript strings and numbers\<close>

text \<open>
  A text that the orchestrator inspects is the list of its UTF-16 code units, which is
  what a regular expression without the \<^verbatim>\<open>u\<close> flag sees. \<open>js\<close> embeds an ASCII
  literal. Titles, identifiers of users and status values are only passed on or
  compared as a whole and stay plain strings.
\<close>

type_synonym js_string = "nat list"

definition js :: "string \<Rightarrow> js_string" where
  "js s = map of_char s"

text \<open>
  The four code units that \<^verbatim>\<open>.\<close> does not match: line feed, carriage return, line
  separator and paragraph separator.
\<close>

definition line_terminator :: "nat \<Rightarrow> bool" where
  "line_terminator c = (c = 10 \<or> c = 13 \<or> c = 8232 \<or> c = 8233)"

text \<open>
  The number that \<^verbatim>\<open>parseInt\<close> returns for a string of decimal digits is a double
  that is not negative: an integer or \<^verbatim>\<open>Infinity\<close>. Every integer up to \<open>2^53\<close> is a
  double. Above that the result is rounded, and for more than 20 significant digits the
  language leaves the rounding to the implementation, so the rounding is a parameter
  of the model. \<open>to_double\<close> is the usual one: to the nearest double, ties to the even
  mantissa, and infinite from \<open>2^1024\<close> on.
\<close>

datatype js_number = Num nat | Infinity

fun bit_length :: "nat \<Rightarrow> nat" where
  "bit_length n = (if n = 0 then 0 else Suc (bit_length (n div 2)))"

definition to_double :: "nat \<Rightarrow> js_number" where
  "to_double v =
     (let e = bit_length v - 53; q = v div 2 ^ e; r = v mod 2 ^ e;
          m = (if 2 ^ e < 2 * r \<or> (2 * r = 2 ^ e \<and> odd q) then q + 1 else q)
      in if 2 ^ 1024 \<le> m * 2 ^ e then Infinity else Num (m * 2 ^ e))"

text \<open>
  The persistence client sends the payload of a write as JSON, in which an infinite
  number is written \<^verbatim>\<open>null\<close>.
\<close>

fun score_json :: "js_number option \<Rightarrow> int option" where
  "score_json None = None"
| "score_json (Some (Num n)) = Some (int n)"
| "score_json (Some Infinity) = None"

section \<open>Text processing of the completion (analyze-content/index.ts, lines 118-126)\<close>

subsection \<open>Code-fence clean-up\<close>

text \<open>
  Line 120 of the orchestrator:
  \<^verbatim>\<open>analysisHtml = analysisHtml.replace(/^```html\n/, '').replace(/\n```$/, '');\<close>
  Neither regular expression carries a flag, so \<^verbatim>\<open>^\<close> is the start of the input,
  \<^verbatim>\<open>$\<close> is the end of the input, and each \<^verbatim>\<open>replace\<close> rewrites at most one
  occurrence. The two calls are independent of each other: the second one runs on
  whatever the first one returned.
\<close>

definition fence_open :: js_string where
  "fence_open = js ''```html\<newline>''"

definition fence_close :: js_string where
  "fence_close = js ''\<newline>```''"

definition replace_leading_fence :: "js_string \<Rightarrow> js_string" where
  "replace_leading_fence t = (if prefix fence_open t then drop (length fence_open) t else t)"

definition replace_trailing_fence :: "js_string \<Rightarrow> js_string" where
  "replace_trailing_fence t =
     (if suffix fence_close t then take (length t - length fence_close) t else t)"

definition clean_response :: "js_string \<Rightarrow> js_string" where
  "clean_response t = replace_trailing_fence (replace_leading_fence t)"

text \<open>
  The wrapper as the specification words it: an opening fence line, a body, a closing
  fence line.
\<close>

definition wrap_fence :: "js_string \<Rightarrow> js_string" where
  "wrap_fence b = fence_open @ b @ fence_close"

definition carries_wrapper :: "js_string \<Rightarrow> bool" where
  "carries_wrapper t = (prefix fence_open t \<and> suffix fence_close (drop (length fence_open) t))"

subsection \<open>Score extraction\<close>

text \<open>
  Lines 125-126:
  \<^verbatim>\<open>const scoreMatch = analysisHtml.match(/<strong style="font-size: 1.2em; color: #FF7A59;">(\d+)\/100<\/strong>/)\<close>
  \<^verbatim>\<open>const score = scoreMatch ? parseInt(scoreMatch[1], 10) : null\<close>
  The expression is a literal up to \<^verbatim>\<open>font-size: 1\<close>, a \<^verbatim>\<open>.\<close> that is not escaped
  and so matches any one code unit other than a line terminator, a literal from
  \<^verbatim>\<open>2em\<close> to the end of the tag, a greedy run of one or more ASCII digits, and a last
  literal. \<^verbatim>\<open>match\<close> without the global flag returns the leftmost match. The literal
  after the digits begins with a slash, so the digit run of a match is always the
  longest one.
\<close>

definition marker_head :: js_string where
  \<open>marker_head = js ''<strong style="font-size: 1''\<close>

definition marker_tail :: js_string where
  \<open>marker_tail = js ''2em; color: #FF7A59;">''\<close>

definition marker_close :: js_string where
  "marker_close = js ''/100</strong>''"

definition is_digit :: "nat \<Rightarrow> bool" where
  "is_digit c = (48 \<le> c \<and> c \<le> 57)"

definition decimal :: "js_string \<Rightarrow> nat" where
  "decimal ds = foldl (\<lambda>n c. 10 * n + (c - 48)) 0 ds"

text \<open>
  \<^verbatim>\<open>parseInt(ds, 10)\<close> on a non-empty string of decimal digits, with the rounding
  \<open>rnd\<close> of the implementation for the values that need one.
\<close>

definition parseInt :: "(nat \<Rightarrow> js_number) \<Rightarrow> js_string \<Rightarrow> js_number" where
  "parseInt rnd ds = (if decimal ds \<le> 2 ^ 53 then Num (decimal ds) else rnd (decimal ds))"

definition score_match_at :: "js_string \<Rightarrow> js_string option" where
  "score_match_at s =
     (if prefix marker_head s then
        (case drop (length marker_head) s of
           [] \<Rightarrow> None
         | c # t \<Rightarrow>
             if \<not> line_terminator c \<and> prefix marker_tail t then
               (let r = drop (length marker_tail) t
                in if takeWhile is_digit r \<noteq> [] \<and> prefix marker_close (dropWhile is_digit r)
                   then Some (takeWhile is_digit r) else None)
             else None)
      else None)"

fun score_match :: "js_string \<Rightarrow> js_string option" where
  "score_match [] = score_match_at []"
| "score_match (c # cs) =
     (case score_match_at (c # cs) of Some ds \<Rightarrow> Some ds | None \<Rightarrow> score_match cs)"

definition extract_score :: "(nat \<Rightarrow> js_number) \<Rightarrow> js_string \<Rightarrow> js_number option" where
  "extract_score rnd html =
     (case score_match html of Some ds \<Rightarrow> Some (parseInt rnd ds) | None \<Rightarrow> None)"

text \<open>
  The marker as the specification words it, with the digits \<open>ds\<close> in it, and the texts
  that the expression of line 125 matches: the same with any code unit \<open>c\<close> other than
  a line terminator in the place of the dot.
\<close>

definition marker_open :: js_string where
  \<open>marker_open = js ''<strong style="font-size: 1.2em; color: #FF7A59;">''\<close>

definition marker :: "js_string \<Rightarrow> js_string" where
  "marker ds = marker_open @ ds @ marker_close"

definition pattern :: "nat \<Rightarrow> js_string \<Rightarrow> js_string" where
  "pattern c ds = marker_head @ c # marker_tail @ ds @ marker_close"

definition digits :: "js_string \<Rightarrow> bool" where
  "digits ds = (ds \<noteq> [] \<and> list_all is_digit ds)"

definition pattern_at :: "js_string \<Rightarrow> nat \<Rightarrow> bool" where
  "pattern_at s i =
     (\<exists>c ds post. \<not> line_terminator c \<and> digits ds \<and> i \<le> length s \<and>
                  drop i s = pattern c ds @ post)"

definition contains_pattern :: "js_string \<Rightarrow> bool" where
  "contains_pattern s =
     (\<exists>pre c ds post. \<not> line_terminator c \<and> digits ds \<and> s = pre @ pattern c ds @ post)"

section \<open>The persisted rows and the persistence client\<close>

text \<open>
  A row of \<^verbatim>\<open>content_ideas\<close> with the columns the two edge functions read or
  write. Both status columns are text columns and the functions write string literals
  into them, so they are strings here. \<^verbatim>\<open>score\<close> and \<^verbatim>\<open>analysis\<close> are nullable.
\<close>

record idea =
  title :: string
  user_id :: string
  analysis_status :: string
  project_status :: string
  score :: "int option"
  analysis :: "js_string option"

type_synonym table = "int \<rightharpoonup> idea"

text \<open>
  The payload of an \<^verbatim>\<open>update\<close>: a key that is absent from the payload is \<open>None\<close>.
  The completing write passes \<^verbatim>\<open>score\<close> even when it is \<^verbatim>\<open>null\<close>, hence the
  nested option.
\<close>

record patch =
  set_analysis_status :: "string option"
  set_score :: "int option option"
  set_analysis :: "js_string option"

definition apply_patch :: "idea \<Rightarrow> patch \<Rightarrow> idea" where
  "apply_patch r p =
     r\<lparr>analysis_status := (case set_analysis_status p of Some s \<Rightarrow> s | None \<Rightarrow> analysis_status r),
       score := (case set_score p of Some v \<Rightarrow> v | None \<Rightarrow> score r),
       analysis := (case set_analysis p of Some a \<Rightarrow> Some a | None \<Rightarrow> analysis r)\<rparr>"

text \<open>
  \<^verbatim>\<open>.update(p).eq('id', i)\<close>. The client reports a failure in its result instead of
  throwing, and the orchestrator reads that result only for its first write; whether a
  write reaches the store is the environment's choice (\<open>applied\<close>). A write for an
  identifier without a row changes nothing.
\<close>

definition db_update :: "bool \<Rightarrow> table \<Rightarrow> int \<Rightarrow> patch \<Rightarrow> table" where
  "db_update applied db i p =
     (if applied then (case db i of Some r \<Rightarrow> db(i \<mapsto> apply_patch r p) | None \<Rightarrow> db) else db)"

datatype error =
    Error string
  | OpenAIStatusError nat
  | RequestBodyError
  | StoreError
  | AuthError
  | FetchError
  | JsonError
  | TypeError

text \<open>
  \<open>Error m\<close> is \<^verbatim>\<open>new Error(m)\<close> thrown by a handler itself;
  \<open>OpenAIStatusError n\<close> is the one of line 113, whose message ends with the status;
  \<open>RequestBodyError\<close> is a rejected \<^verbatim>\<open>req.json()\<close> or a body without fields;
  \<open>StoreError\<close> and \<open>AuthError\<close> are the error objects the platform client returns;
  \<open>FetchError\<close> is a rejected \<^verbatim>\<open>fetch\<close> (the network call could not complete);
  \<open>JsonError\<close> is a rejected \<^verbatim>\<open>response.json()\<close>; \<open>TypeError\<close> is a property read
  on \<^verbatim>\<open>undefined\<close>.
\<close>

datatype 'a body = Unreadable | Fields 'a

datatype 'b fetch_result = FetchFailed | Response nat 'b

definition response_ok :: "nat \<Rightarrow> bool" where
  "response_ok st = (200 \<le> st \<and> st \<le> 299)"

datatype reply_body = ReplyOk | ReplySuccess int | ReplyError error | ReplyIdea int idea

record reply =
  http_status :: nat
  reply_body :: reply_body

section \<open>The orchestrator (analyze-content/index.ts)\<close>

record web_result =
  result_title :: string
  result_url :: string
  result_description :: string

record snippet =
  snippet_title :: string
  snippet_url :: string
  snippet_text :: string

text \<open>
  The body of the search provider's response, by what lines 52-53 do with it:
  \<^verbatim>\<open>const braveData = await braveResponse.json()\<close>
  \<^verbatim>\<open>const searchContext = braveData.web?.results.slice(0, 5).map(...) || []\<close>
  The optional chaining covers \<^verbatim>\<open>web\<close> only.
\<close>

datatype brave_body =
    BraveUnparsable
  | BraveNoWeb
  | BraveNoResults
  | BraveResults "web_result list"

definition to_snippet :: "web_result \<Rightarrow> snippet" where
  "to_snippet r =
     \<lparr>snippet_title = result_title r, snippet_url = result_url r, snippet_text = result_description r\<rparr>"

fun search_context :: "brave_body \<Rightarrow> error + snippet list" where
  "search_context BraveUnparsable = Inl JsonError"
| "search_context BraveNoWeb = Inr []"
| "search_context BraveNoResults = Inl TypeError"
| "search_context (BraveResults rs) = Inr (map to_snippet (take 5 rs))"

text \<open>
  The body of the completion provider's response, by what lines 116-118 do with it:
  \<^verbatim>\<open>chatCompletion.choices[0].message.content || '<html><body>Error generating report.</body></html>'\<close>
\<close>

datatype openai_body =
    OpenAIUnparsable
  | OpenAINoChoice
  | OpenAIContent "js_string option"

definition placeholder :: js_string where
  "placeholder = js ''<html><body>Error generating report.</body></html>''"

fun content_or_placeholder :: "js_string option \<Rightarrow> js_string" where
  "content_or_placeholder None = placeholder"
| "content_or_placeholder (Some c) = (if c = [] then placeholder else c)"

datatype event =
    DbUpdate int patch
  | SearchCall string
  | CompletionCall string "snippet list"
  | AuthGetUser
  | DbInsert idea
  | Invoke int

text \<open>
  The calls a handler issues, in order. The prompt of the completion call is a fixed
  text around the title and the search context, which are what \<open>CompletionCall\<close>
  carries. Console output is not modelled, except for the dispatch of the intake.
\<close>

record environment =
  store_ok_first :: bool
  brave :: "brave_body fetch_result"
  openai :: "openai_body fetch_result"
  store_ok_last :: bool
  rounding :: "nat \<Rightarrow> js_number"

record analyze_request =
  a_method :: string
  a_body :: "int option body"

definition analyzing_patch :: patch where
  "analyzing_patch = \<lparr>set_analysis_status = Some ''analyzing'', set_score = None, set_analysis = None\<rparr>"

definition failed_patch :: patch where
  "failed_patch = \<lparr>set_analysis_status = Some ''failed'', set_score = None, set_analysis = None\<rparr>"

definition completed_patch :: "int option \<Rightarrow> js_string \<Rightarrow> patch" where
  "completed_patch sc html =
     \<lparr>set_analysis_status = Some ''completed'', set_score = Some sc, set_analysis = Some html\<rparr>"

text \<open>
  Lines 37-45: the first write, with \<^verbatim>\<open>.select().single()\<close>, which reports an error
  when no row has the identifier; the check of line 45 for a missing row without an
  error has therefore no case of its own.
\<close>

definition mark_analyzing :: "environment \<Rightarrow> table \<Rightarrow> int \<Rightarrow> table \<times> (error + idea)" where
  "mark_analyzing env db i =
     (let db1 = db_update (store_ok_first env) db i analyzing_patch
      in (db1, if store_ok_first env
               then (case db1 i of Some r \<Rightarrow> Inr r | None \<Rightarrow> Inl StoreError)
               else Inl StoreError))"

text \<open>
  Lines 47-126: search, prompt, completion, clean-up and score extraction. The result is
  the error thrown or the payload of the completing write, with the calls issued. The
  status of the search response is bound by the pattern and not read, as in the source,
  which never reads \<^verbatim>\<open>braveResponse.ok\<close>.
\<close>

definition pipeline :: "environment \<Rightarrow> idea \<Rightarrow> (error + patch) \<times> event list" where
  "pipeline env row =
     (case brave env of
        FetchFailed \<Rightarrow> (Inl FetchError, [SearchCall (title row)])
      | Response st b \<Rightarrow>
          (case search_context b of
             Inl e \<Rightarrow> (Inl e, [SearchCall (title row)])
           | Inr ctx \<Rightarrow>
               (let calls = [SearchCall (title row), CompletionCall (title row) ctx]
                in case openai env of
                     FetchFailed \<Rightarrow> (Inl FetchError, calls)
                   | Response st' b' \<Rightarrow>
                       if \<not> response_ok st' then (Inl (OpenAIStatusError st'), calls)
                       else (case b' of
                               OpenAIUnparsable \<Rightarrow> (Inl JsonError, calls)
                             | OpenAINoChoice \<Rightarrow> (Inl TypeError, calls)
                             | OpenAIContent c \<Rightarrow>
                                 (let analysisHtml = clean_response (content_or_placeholder c);
                                      score = extract_score (rounding env) analysisHtml
                                  in (Inr (completed_patch (score_json score) analysisHtml),
                                      calls))))))"

record analyze_result =
  response :: reply
  events :: "event list"
  marked :: table
  final :: table

text \<open>
  \<open>marked\<close> is the store after the first write (line 39), \<open>final\<close> the store when the
  handler returns. The \<^verbatim>\<open>catch\<close> block writes \<^verbatim>\<open>failed\<close> only when the identifier
  is truthy and the admin client exists, that is, from line 35 on.
\<close>

definition analyze_content :: "analyze_request \<Rightarrow> environment \<Rightarrow> table \<Rightarrow> analyze_result" where
  "analyze_content req env db =
     (if a_method req = ''OPTIONS''
      then \<lparr>response = \<lparr>http_status = 200, reply_body = ReplyOk\<rparr>, events = [], marked = db, final = db\<rparr>
      else case a_body req of
        Unreadable \<Rightarrow>
          \<lparr>response = \<lparr>http_status = 500, reply_body = ReplyError RequestBodyError\<rparr>,
           events = [], marked = db, final = db\<rparr>
      | Fields idea_id \<Rightarrow>
          (case idea_id of
             None \<Rightarrow>
               \<lparr>response = \<lparr>http_status = 500,
                             reply_body = ReplyError (Error ''Missing required field: idea_id'')\<rparr>,
                events = [], marked = db, final = db\<rparr>
           | Some i \<Rightarrow>
               if i = 0
               then \<lparr>response = \<lparr>http_status = 500,
                                  reply_body = ReplyError (Error ''Missing required field: idea_id'')\<rparr>,
                     events = [], marked = db, final = db\<rparr>
               else
                 (let (db1, found) = mark_analyzing env db i;
                      (res, calls) = (case found of
                                        Inl e \<Rightarrow> (Inl e, [])
                                      | Inr row \<Rightarrow> pipeline env row)
                  in case res of
                       Inr p \<Rightarrow>
                         \<lparr>response = \<lparr>http_status = 200, reply_body = ReplySuccess i\<rparr>,
                          events = DbUpdate i analyzing_patch # calls @ [DbUpdate i p],
                          marked = db1,
                          final = db_update (store_ok_last env) db1 i p\<rparr>
                     | Inl e \<Rightarrow>
                         \<lparr>response = \<lparr>http_status = 500, reply_body = ReplyError e\<rparr>,
                          events = DbUpdate i analyzing_patch # calls @ [DbUpdate i failed_patch],
                          marked = db1,
                          final = db_update (store_ok_last env) db1 i failed_patch\<rparr>)))"

section \<open>The intake (submit-idea/index.ts)\<close>

datatype auth_result = AuthFailed | NoUser | User string

datatype dispatch_result = DispatchStarted | DispatchError | DispatchRejected

datatype log_line = InvokeOk int | InvokeError int | InvokeCaught int

record submit_environment =
  auth :: auth_result
  insert_ok :: bool
  new_id :: int
  dispatch :: dispatch_result

record submit_request =
  s_method :: string
  s_body :: "string option body"

record submit_result =
  s_response :: reply
  s_events :: "event list"
  s_final :: table
  s_logged :: "log_line list"

text \<open>
  The row of lines 46-51; the columns the payload leaves out take the store's default,
  which is null for both.
\<close>

definition new_idea :: "string \<Rightarrow> string \<Rightarrow> idea" where
  "new_idea t u =
     \<lparr>title = t, user_id = u, analysis_status = ''analyzing'', project_status = ''New'',
      score = None, analysis = None\<rparr>"

text \<open>
  Lines 60-70: the callbacks of the dispatch, which run after the handler has returned.
\<close>

fun dispatch_log :: "dispatch_result \<Rightarrow> int \<Rightarrow> log_line list" where
  "dispatch_log DispatchStarted i = [InvokeOk i]"
| "dispatch_log DispatchError i = [InvokeError i]"
| "dispatch_log DispatchRejected i = [InvokeCaught i]"

definition rejected :: "error \<Rightarrow> event list \<Rightarrow> table \<Rightarrow> submit_result" where
  "rejected e evs db =
     \<lparr>s_response = \<lparr>http_status = 400, reply_body = ReplyError e\<rparr>,
      s_events = evs, s_final = db, s_logged = []\<rparr>"

text \<open>
  The store assigns the identifier (\<open>new_id\<close>); an insert under an identifier that is
  taken violates the primary key and reports an error, like any other failed insert.
\<close>

definition submit_idea :: "submit_request \<Rightarrow> submit_environment \<Rightarrow> table \<Rightarrow> submit_result" where
  "submit_idea req env db =
     (if s_method req = ''OPTIONS''
      then \<lparr>s_response = \<lparr>http_status = 200, reply_body = ReplyOk\<rparr>,
            s_events = [], s_final = db, s_logged = []\<rparr>
      else case s_body req of
        Unreadable \<Rightarrow> rejected RequestBodyError [] db
      | Fields t \<Rightarrow>
          (case t of
             None \<Rightarrow> rejected (Error ''Missing required field: title'') [] db
           | Some ttl \<Rightarrow>
               if ttl = [] then rejected (Error ''Missing required field: title'') [] db
               else (case auth env of
                       AuthFailed \<Rightarrow> rejected AuthError [AuthGetUser] db
                     | NoUser \<Rightarrow> rejected (Error ''User not found'') [AuthGetUser] db
                     | User u \<Rightarrow>
                         (let row = new_idea ttl u
                          in if insert_ok env \<and> db (new_id env) = None
                             then \<lparr>s_response = \<lparr>http_status = 201,
                                                  reply_body = ReplyIdea (new_id env) row\<rparr>,
                                   s_events = [AuthGetUser, DbInsert row, Invoke (new_id env)],
                                   s_final = db(new_id env \<mapsto> row),
                                   s_logged = dispatch_log (dispatch env) (new_id env)\<rparr>
                             else rejected StoreError [AuthGetUser, DbInsert row] db))))"

section \<open>Invariants and sample inputs\<close>

text \<open>The two invariants of the data model, as predicates on the store.\<close>

definition completed_has_analysis :: "table \<Rightarrow> bool" where
  "completed_has_analysis db =
     (\<forall>i r. db i = Some r \<longrightarrow> analysis_status r = ''completed'' \<longrightarrow> analysis r \<noteq> None)"

definition scores_nonneg :: "table \<Rightarrow> bool" where
  "scores_nonneg db = (\<forall>i r n. db i = Some r \<longrightarrow> score r = Some n \<longrightarrow> 0 \<le> n)"

text \<open>
  Inputs for the scenarios: a row as the intake creates it, a trigger for an identifier,
  a submission of a title, and an environment in which every write reaches the store
  and numbers are rounded to the nearest double.
\<close>

definition sample_idea :: idea where
  "sample_idea = new_idea ''Blockchain for B2B marketing'' ''user-1''"

definition sample_report :: "string \<Rightarrow> js_string" where
  "sample_report ds = js ''<html><body><p>'' @ marker (js ds) @ js ''</p></body></html>''"

definition sample_completed :: idea where
  "sample_completed =
     sample_idea\<lparr>analysis_status := ''completed'', score := Some 82,
                  analysis := Some (sample_report ''82'')\<rparr>"

definition post_analyze :: "int \<Rightarrow> analyze_request" where
  "post_analyze i = \<lparr>a_method = ''POST'', a_body = Fields (Some i)\<rparr>"

definition post_submit :: "string option \<Rightarrow> submit_request" where
  "post_submit t = \<lparr>s_method = ''POST'', s_body = Fields t\<rparr>"

definition reliable :: "brave_body fetch_result \<Rightarrow> openai_body fetch_result \<Rightarrow> environment" where
  "reliable b c =
     \<lparr>store_ok_first = True, brave = b, openai = c, store_ok_last = True, rounding = to_double\<rparr>"

definition signed_in :: "int \<Rightarrow> dispatch_result \<Rightarrow> submit_environment" where
  "signed_in i d = \<lparr>auth = User ''user-1'', insert_ok = True, new_id = i, dispatch = d\<rparr>"

section \<open>Properties of the text processing\<close>

text \<open>
  \<open>to_double\<close> agrees with the exact branch of \<open>parseInt\<close> and rounds ties to the even
  mantissa.
\<close>

lemma bit_length_le: "v < 2 ^ k \<Longrightarrow> bit_length v \<le> k"
proof (induction k arbitrary: v)
  case 0
  then show ?case by simp
next
  case (Suc k)
  then have "v div 2 < 2 ^ k" by auto
  with Suc.IH [of "v div 2"] show ?case by simp
qed

lemma to_double_exact: "v < 2 ^ 53 \<Longrightarrow> to_double v = Num v"
proof -
  assume v: "v < 2 ^ 53"
  then have e: "bit_length v - 53 = 0" using bit_length_le [of v 53] by simp
  have "(2::nat) ^ 53 < 2 ^ 1024" by simp
  with v have "\<not> 2 ^ 1024 \<le> v" by linarith
  with e show ?thesis by (simp add: to_double_def del: bit_length.simps)
qed

lemma to_double_ties:
  "to_double 9007199254740992 = Num 9007199254740992"
  "to_double 9007199254740993 = Num 9007199254740992"
  "to_double 9007199254740995 = Num 9007199254740996"
  by (simp_all add: to_double_def Let_def)

lemma marker_open_split: "marker_open = marker_head @ 46 # marker_tail"
  by (simp add: marker_open_def marker_head_def marker_tail_def js_def)

lemma marker_pattern: "marker ds = pattern 46 ds"
  by (simp add: marker_def pattern_def marker_open_split)

lemma dot_not_terminator: "\<not> line_terminator 46"
  by (simp add: line_terminator_def)

lemma takeWhile_digits_close:
  "list_all is_digit ds \<Longrightarrow> takeWhile is_digit (ds @ marker_close @ post) = ds"
  by (induction ds) (simp_all add: marker_close_def js_def is_digit_def)

lemma dropWhile_digits_close:
  "list_all is_digit ds \<Longrightarrow> dropWhile is_digit (ds @ marker_close @ post) = marker_close @ post"
  by (induction ds) (simp_all add: marker_close_def js_def is_digit_def)

lemma score_match_at_pattern:
  "\<not> line_terminator c \<Longrightarrow> digits ds \<Longrightarrow> score_match_at (pattern c ds @ post) = Some ds"
  by (simp add: score_match_at_def pattern_def digits_def takeWhile_digits_close
      dropWhile_digits_close)

lemma score_match_at_SomeD:
  assumes "score_match_at s = Some ds"
  shows "digits ds \<and> (\<exists>c post. \<not> line_terminator c \<and> s = pattern c ds @ post)"
proof -
  from assms have p: "prefix marker_head s"
    by (simp add: score_match_at_def split: if_splits)
  then obtain u where s: "s = marker_head @ u"
    by (auto simp: prefix_def)
  with assms obtain c t where u: "u = c # t"
    by (cases u) (simp_all add: score_match_at_def)
  from assms s u have c: "\<not> line_terminator c" and pt: "prefix marker_tail t"
    by (auto simp: score_match_at_def split: if_splits)
  from pt obtain r where t: "t = marker_tail @ r"
    by (auto simp: prefix_def)
  from assms s u c t have ds: "ds = takeWhile is_digit r" and ne: "takeWhile is_digit r \<noteq> []"
    and pc: "prefix marker_close (dropWhile is_digit r)"
    by (auto simp: score_match_at_def Let_def split: if_splits)
  from pc obtain post where post: "dropWhile is_digit r = marker_close @ post"
    by (auto simp: prefix_def)
  have "r = ds @ marker_close @ post"
    using takeWhile_dropWhile_id [of is_digit r] ds post by simp
  moreover have "digits ds"
    using ds ne by (auto simp: digits_def list_all_iff dest: set_takeWhileD)
  ultimately show ?thesis using s u t c by (auto simp: pattern_def)
qed

lemma score_match_at_iff:
  "score_match_at s = Some ds \<longleftrightarrow>
     digits ds \<and> (\<exists>c post. \<not> line_terminator c \<and> s = pattern c ds @ post)"
  using score_match_at_SomeD score_match_at_pattern by blast

lemma pattern_at_iff: "pattern_at s i \<longleftrightarrow> i \<le> length s \<and> score_match_at (drop i s) \<noteq> None"
proof
  assume "pattern_at s i"
  then show "i \<le> length s \<and> score_match_at (drop i s) \<noteq> None"
    by (auto simp: pattern_at_def score_match_at_pattern)
next
  assume a: "i \<le> length s \<and> score_match_at (drop i s) \<noteq> None"
  then obtain ds where "score_match_at (drop i s) = Some ds" by auto
  from score_match_at_SomeD [OF this] a show "pattern_at s i"
    by (auto simp: pattern_at_def)
qed

lemma score_match_None_iff:
  "score_match s = None \<longleftrightarrow> (\<forall>i\<le>length s. score_match_at (drop i s) = None)"
proof (induction s)
  case Nil
  then show ?case by simp
next
  case (Cons c cs)
  have "(\<forall>i\<le>length (c # cs). score_match_at (drop i (c # cs)) = None) \<longleftrightarrow>
        score_match_at (c # cs) = None \<and> (\<forall>i\<le>length cs. score_match_at (drop i cs) = None)"
  proof (intro iffI conjI allI impI)
    assume h: "\<forall>i\<le>length (c # cs). score_match_at (drop i (c # cs)) = None"
    from h have "score_match_at (drop 0 (c # cs)) = None" by blast
    then show "score_match_at (c # cs) = None" by simp
    fix i assume "i \<le> length cs"
    then have "Suc i \<le> length (c # cs)" by simp
    with h have "score_match_at (drop (Suc i) (c # cs)) = None" by blast
    then show "score_match_at (drop i cs) = None" by simp
  next
    fix i
    assume h: "score_match_at (c # cs) = None \<and> (\<forall>i\<le>length cs. score_match_at (drop i cs) = None)"
      and i: "i \<le> length (c # cs)"
    show "score_match_at (drop i (c # cs)) = None"
    proof (cases i)
      case 0
      then show ?thesis using h by simp
    next
      case (Suc j)
      then show ?thesis using h i by simp
    qed
  qed
  with Cons show ?case by (auto split: option.splits)
qed

lemma contains_pattern_iff: "contains_pattern s \<longleftrightarrow> (\<exists>i. pattern_at s i)"
  unfolding contains_pattern_def pattern_at_def
proof
  assume "\<exists>pre c ds post. \<not> line_terminator c \<and> digits ds \<and> s = pre @ pattern c ds @ post"
  then obtain pre c ds post where "\<not> line_terminator c" "digits ds" "s = pre @ pattern c ds @ post"
    by blast
  then have "\<not> line_terminator c \<and> digits ds \<and> length pre \<le> length s \<and>
             drop (length pre) s = pattern c ds @ post" by simp
  then show "\<exists>i c ds post. \<not> line_terminator c \<and> digits ds \<and> i \<le> length s \<and>
               drop i s = pattern c ds @ post" by blast
next
  assume "\<exists>i c ds post. \<not> line_terminator c \<and> digits ds \<and> i \<le> length s \<and>
            drop i s = pattern c ds @ post"
  then obtain i c ds post where "\<not> line_terminator c" "digits ds" "drop i s = pattern c ds @ post"
    by blast
  then have "\<not> line_terminator c \<and> digits ds \<and> s = take i s @ pattern c ds @ post"
    by (metis append_take_drop_id)
  then show "\<exists>pre c ds post. \<not> line_terminator c \<and> digits ds \<and> s = pre @ pattern c ds @ post"
    by blast
qed

lemma contains_pattern_code: "contains_pattern s \<longleftrightarrow> score_match s \<noteq> None"
  by (auto simp: contains_pattern_iff pattern_at_iff score_match_None_iff)

lemma score_match_skip:
  "\<forall>i<length pre. \<not> pattern_at (pre @ r) i \<Longrightarrow> score_match (pre @ r) = score_match r"
proof (induction pre)
  case Nil
  then show ?case by simp
next
  case (Cons c pre)
  from Cons.prems have "\<not> pattern_at ((c # pre) @ r) 0" by auto
  then have a: "score_match_at (c # pre @ r) = None" by (simp add: pattern_at_iff)
  have "\<forall>i<length pre. \<not> pattern_at (pre @ r) i"
  proof (intro allI impI)
    fix i assume "i < length pre"
    then have "\<not> pattern_at ((c # pre) @ r) (Suc i)" using Cons.prems by auto
    then show "\<not> pattern_at (pre @ r) i" by (simp add: pattern_at_iff)
  qed
  with Cons.IH a show ?case by simp
qed

lemma score_match_first:
  "\<not> line_terminator c \<Longrightarrow> digits ds \<Longrightarrow> score_match (pattern c ds @ post) = Some ds"
  using score_match_at_pattern [of c ds post]
  by (cases "pattern c ds @ post") (simp_all)

lemma score_match_SomeD: "score_match s = Some ds \<Longrightarrow> digits ds"
  by (induction s) (auto split: option.splits dest: score_match_at_SomeD)

lemma extract_score_None_iff: "extract_score rnd s = None \<longleftrightarrow> \<not> contains_pattern s"
  by (simp add: extract_score_def contains_pattern_code split: option.splits)

lemma extract_score_leftmost:
  assumes "digits ds" and "\<forall>i<length pre. \<not> pattern_at (pre @ marker ds @ post) i"
  shows "extract_score rnd (pre @ marker ds @ post) = Some (parseInt rnd ds)"
  using score_match_skip [OF assms(2)] score_match_first [OF dot_not_terminator assms(1), of post]
  by (simp add: extract_score_def marker_pattern)

lemma parseInt_exact: "decimal ds \<le> 2 ^ 53 \<Longrightarrow> parseInt rnd ds = Num (decimal ds)"
  by (simp add: parseInt_def)

lemma decimal_73: "decimal (js ''73'') = 73"
  by (simp add: decimal_def js_def)

lemma parseInt_73: "parseInt rnd (js ''73'') = Num 73"
  by (simp add: parseInt_exact decimal_73)

lemma score_json_nonneg: "score_json x = Some n \<Longrightarrow> 0 \<le> n"
  by (cases x rule: score_json.cases) auto

lemmas text_defs =
  js_def clean_response_def replace_leading_fence_def replace_trailing_fence_def fence_open_def
  fence_close_def suffix_to_prefix extract_score_def score_match_at_def marker_def
  marker_open_def marker_head_def marker_tail_def marker_close_def line_terminator_def
  is_digit_def parseInt_def decimal_def

text \<open>
  The dot of the expression is not escaped: a tag whose style reads \<^verbatim>\<open>1x2em\<close> is
  matched as well.
\<close>

lemma extract_score_dot_any_code_unit:
  \<open>extract_score rnd (js ''<strong style="font-size: 1x2em; color: #FF7A59;">73/100</strong>'') =
     Some (Num 73)\<close>
  by (simp add: text_defs)

text \<open>
  Claim C5, as amended. Score extraction returns null for every text that holds no
  match of the expression of line 125, and it returns 73 for every text in which
  \<^verbatim>\<open><strong style="font-size: 1.2em; color: #FF7A59;">73/100</strong>\<close> occurs with
  no match of the expression beginning before it. What the extraction returns where
  the only matches have another code unit in the place of the dot is not part of the
  amended claim.
\<close>

theorem extract_score_leftmost_marker:
  "(\<not> contains_pattern s \<longrightarrow> extract_score rnd s = None) \<and>
   ((\<forall>i<length pre. \<not> pattern_at (pre @ marker (js ''73'') @ post) i) \<longrightarrow>
      extract_score rnd (pre @ marker (js ''73'') @ post) = Some (Num 73))"
proof -
  have d: "digits (js ''73'')" by (simp add: digits_def is_digit_def js_def)
  show ?thesis
    using extract_score_None_iff [of rnd s] extract_score_leftmost [OF d, of pre post rnd]
    by (simp add: parseInt_73)
qed

text \<open>The theorem at a text without a match and at a text with a single marker.\<close>

theorem extract_score_leftmost_marker_witness:
  "\<not> contains_pattern (js ''<p>no score</p>'') \<and>
   extract_score to_double (js ''<p>no score</p>'') = None \<and>
   extract_score to_double (js ''<p>'' @ marker (js ''73'') @ js ''</p>'') = Some (Num 73)"
proof -
  have a: "\<not> contains_pattern (js ''<p>no score</p>'')"
    by (simp add: contains_pattern_code score_match_at_def marker_head_def js_def)
  have b: "\<forall>i<length (js ''<p>''). \<not> pattern_at (js ''<p>'' @ marker (js ''73'') @ js ''</p>'') i"
    by (simp add: pattern_at_iff score_match_at_def marker_def marker_open_def marker_head_def
        js_def less_Suc_eq numeral_3_eq_3)
  from a b show ?thesis
    using extract_score_leftmost_marker [of "js ''<p>no score</p>''" to_double "js ''<p>''" "js ''</p>''"]
    by blast
qed

text \<open>
  Claim C5 as stated fails: this text contains the marker with 73, and the extraction
  returns the 50 of the marker before it.
\<close>

theorem extract_score_second_marker_counterexample:
  "extract_score to_double
     (js ''<p>'' @ marker (js ''50'') @ js ''</p><p>'' @ marker (js ''73'') @ js ''</p>'') =
     Some (Num 50)"
  by (simp add: text_defs)

lemma carries_wrapper_iff: "carries_wrapper t \<longleftrightarrow> (\<exists>b. t = wrap_fence b)"
  by (auto simp: carries_wrapper_def wrap_fence_def prefix_def suffix_def)

lemma clean_response_wrap: "clean_response (wrap_fence b) = b"
  by (simp add: clean_response_def wrap_fence_def replace_leading_fence_def
      replace_trailing_fence_def suffix_def)

lemma replace_leading_fence_split:
  "t = (if prefix fence_open t then fence_open else []) @ replace_leading_fence t"
  by (auto simp: replace_leading_fence_def prefix_def)

lemma replace_trailing_fence_split:
  "t = replace_trailing_fence t @ (if suffix fence_close t then fence_close else [])"
  by (auto simp: replace_trailing_fence_def suffix_def)

text \<open>
  Claim C9, as amended. The clean-up strips each fence on its own. A text that neither
  begins with the opening fence line nor ends with the closing fence line is returned
  unchanged; the wrapped text \<^verbatim>\<open>"```html\n" + b + "\n```"\<close> gives exactly \<open>b\<close>, for
  every body \<open>b\<close>; and in general the result is the input without its leading opening
  fence, if it has one, and without the closing fence that then ends it, if there is
  one, with nothing else changed.
\<close>

theorem clean_response_strips_each_fence:
  "(\<not> prefix fence_open t \<and> \<not> suffix fence_close t \<longrightarrow> clean_response t = t) \<and>
   clean_response (wrap_fence b) = b \<and>
   t = (if prefix fence_open t then fence_open else []) @ clean_response t @
       (if suffix fence_close (replace_leading_fence t) then fence_close else [])"
proof (intro conjI impI)
  assume "\<not> prefix fence_open t \<and> \<not> suffix fence_close t"
  then show "clean_response t = t"
    by (simp add: clean_response_def replace_leading_fence_def replace_trailing_fence_def)
next
  show "clean_response (wrap_fence b) = b" by (rule clean_response_wrap)
next
  show "t = (if prefix fence_open t then fence_open else []) @ clean_response t @
       (if suffix fence_close (replace_leading_fence t) then fence_close else [])"
    using replace_leading_fence_split [of t]
      replace_trailing_fence_split [of "replace_leading_fence t"]
    by (simp add: clean_response_def)
qed

text \<open>The theorem at a text without fences and at the same text wrapped.\<close>

theorem clean_response_strips_each_fence_witness:
  "clean_response (js ''<p>ok</p>'') = js ''<p>ok</p>'' \<and>
   clean_response (wrap_fence (js ''<p>ok</p>'')) = js ''<p>ok</p>''"
proof -
  have "\<not> prefix fence_open (js ''<p>ok</p>'') \<and> \<not> suffix fence_close (js ''<p>ok</p>'')"
    by (simp add: fence_open_def fence_close_def suffix_to_prefix js_def)
  then show ?thesis
    using clean_response_strips_each_fence [of "js ''<p>ok</p>''" "js ''<p>ok</p>''"] by blast
qed

text \<open>
  Claim C9 as stated fails: a completion that ends with a newline after its closing fence
  does not carry the wrapper, and the clean-up still removes its opening fence.
\<close>

theorem clean_response_half_wrapped_counterexample:
  "\<not> carries_wrapper (js ''```html\<newline><p>ok</p>\<newline>```\<newline>'') \<and>
   clean_response (js ''```html\<newline><p>ok</p>\<newline>```\<newline>'') =
     js ''<p>ok</p>\<newline>```\<newline>''"
  by (simp add: carries_wrapper_def clean_response_def replace_leading_fence_def
      replace_trailing_fence_def fence_open_def fence_close_def suffix_to_prefix js_def)

section \<open>Properties of the two handlers\<close>

lemmas sample_defs =
  sample_idea_def sample_completed_def sample_report_def post_analyze_def post_submit_def
  reliable_def signed_in_def new_idea_def

lemmas run_defs =
  analyze_content_def mark_analyzing_def pipeline_def db_update_def apply_patch_def
  analyzing_patch_def failed_patch_def completed_patch_def response_ok_def

lemma db_update_apply:
  "db_update a db i p j =
     (if a \<and> j = i then map_option (\<lambda>r. apply_patch r p) (db i) else db j)"
  by (simp add: db_update_def split: option.splits)

lemma pipeline_Inr:
  assumes "pipeline env row = (Inr p, calls)"
  shows "\<exists>html. p = completed_patch (score_json (extract_score (rounding env) html)) html"
  using assms
  by (auto simp: pipeline_def Let_def
      split: fetch_result.splits sum.splits if_splits openai_body.splits)

lemma pipeline_calls:
  "pipeline env row = (r, calls) \<Longrightarrow> DbUpdate j q \<notin> set calls"
  by (auto simp: pipeline_def Let_def
      split: fetch_result.splits sum.splits if_splits openai_body.splits)

lemma analyze_content_cases:
  fixes req env db
  defines "res \<equiv> analyze_content req env db"
  obtains (quiet) "events res = []" and "marked res = db" and "final res = db"
      and "a_method req = ''OPTIONS'' \<or> a_body req = Unreadable \<or> a_body req = Fields None \<or>
           a_body req = Fields (Some 0)"
  | (ran) i p calls where "i \<noteq> 0" and "a_method req \<noteq> ''OPTIONS''"
      and "a_body req = Fields (Some i)"
      and "marked res = db_update (store_ok_first env) db i analyzing_patch"
      and "final res = db_update (store_ok_last env) (marked res) i p"
      and "events res = DbUpdate i analyzing_patch # calls @ [DbUpdate i p]"
      and "\<forall>j q. DbUpdate j q \<notin> set calls"
      and "(p = failed_patch \<and> http_status (response res) = 500) \<or>
           (\<exists>html. p = completed_patch (score_json (extract_score (rounding env) html)) html \<and>
                   http_status (response res) = 200)"
proof (cases "a_method req = ''OPTIONS''")
  case True
  then show ?thesis using quiet by (simp add: res_def analyze_content_def)
next
  case notopt: False
  show ?thesis
  proof (cases "a_body req")
    case Unreadable
    then show ?thesis using quiet notopt by (simp add: res_def analyze_content_def)
  next
    case (Fields idea_id)
    show ?thesis
    proof (cases idea_id)
      case None
      then show ?thesis using quiet notopt Fields by (simp add: res_def analyze_content_def)
    next
      case (Some i)
      show ?thesis
      proof (cases "i = 0")
        case True
        then show ?thesis using quiet notopt Fields Some by (simp add: res_def analyze_content_def)
      next
        case nz: False
        define found where "found = snd (mark_analyzing env db i)"
        define rc where "rc = (case found of Inl e \<Rightarrow> (Inl e, []) | Inr row \<Rightarrow> pipeline env row)"
        have m: "mark_analyzing env db i = (db_update (store_ok_first env) db i analyzing_patch, found)"
          by (simp add: found_def mark_analyzing_def Let_def)
        obtain r calls where rc: "rc = (r, calls)" by (cases rc)
        have calls: "\<forall>j q. DbUpdate j q \<notin> set calls"
        proof (cases found)
          case (Inl e)
          with rc show ?thesis by (simp add: rc_def)
        next
          case (Inr row)
          with rc have "pipeline env row = (r, calls)" by (simp add: rc_def)
          then show ?thesis by (blast dest: pipeline_calls)
        qed
        show ?thesis
        proof (cases r)
          case (Inl e)
          show ?thesis
            by (rule ran [of i failed_patch calls])
              (use nz notopt Fields Some m rc Inl calls in
                \<open>simp_all add: res_def analyze_content_def rc_def [symmetric]\<close>)
        next
          case (Inr p)
          with rc obtain row where "pipeline env row = (Inr p, calls)"
            by (auto simp: rc_def split: sum.splits)
          from pipeline_Inr [OF this] obtain html where
            p: "p = completed_patch (score_json (extract_score (rounding env) html)) html" ..
          show ?thesis
            by (rule ran [of i p calls])
              (use nz notopt Fields Some m rc Inr calls p in
                \<open>auto simp add: res_def analyze_content_def rc_def [symmetric]\<close>)
        qed
      qed
    qed
  qed
qed

lemma apply_analyzing [simp]:
  "analysis_status (apply_patch r analyzing_patch) = ''analyzing''"
  "score (apply_patch r analyzing_patch) = score r"
  "analysis (apply_patch r analyzing_patch) = analysis r"
  by (simp_all add: apply_patch_def analyzing_patch_def)

lemma apply_failed [simp]:
  "analysis_status (apply_patch r failed_patch) = ''failed''"
  "score (apply_patch r failed_patch) = score r"
  "analysis (apply_patch r failed_patch) = analysis r"
  by (simp_all add: apply_patch_def failed_patch_def)

lemma apply_completed [simp]:
  "analysis_status (apply_patch r (completed_patch sc html)) = ''completed''"
  "score (apply_patch r (completed_patch sc html)) = sc"
  "analysis (apply_patch r (completed_patch sc html)) = Some html"
  by (simp_all add: apply_patch_def completed_patch_def)

lemma apply_patch_title [simp]: "title (apply_patch r p) = title r"
  by (simp add: apply_patch_def)

lemma mark_analyzing_found:
  "store_ok_first env \<Longrightarrow> db i = Some r0 \<Longrightarrow>
   mark_analyzing env db i =
     (db(i \<mapsto> apply_patch r0 analyzing_patch), Inr (apply_patch r0 analyzing_patch))"
  by (simp add: mark_analyzing_def db_update_def)

lemma clean_response_placeholder: "clean_response placeholder = placeholder"
  by (simp add: clean_response_def replace_leading_fence_def replace_trailing_fence_def
      placeholder_def fence_open_def fence_close_def suffix_to_prefix js_def)

lemma extract_score_placeholder: "extract_score rnd placeholder = None"
  by (simp add: extract_score_def score_match_at_def placeholder_def marker_head_def js_def)

text \<open>
  Claim C1 at a search response with status 429 and a JSON error body without a
  \<^verbatim>\<open>web\<close> field: the orchestrator takes the empty search context, issues the
  completion call, answers 200 and leaves the row \<^verbatim>\<open>completed\<close>. The status of the
  search response is never read (the daily-insights function does read it and throws).
\<close>

theorem search_non_success_still_completes:
  "events (analyze_content (post_analyze 1)
             (reliable (Response 429 BraveNoWeb)
                       (Response 200 (OpenAIContent (Some (sample_report ''82'')))))
             [1 \<mapsto> sample_idea]) =
     [DbUpdate 1 analyzing_patch,
      SearchCall ''Blockchain for B2B marketing'',
      CompletionCall ''Blockchain for B2B marketing'' [],
      DbUpdate 1 (completed_patch (Some 82) (sample_report ''82''))] \<and>
   http_status (response (analyze_content (post_analyze 1)
             (reliable (Response 429 BraveNoWeb)
                       (Response 200 (OpenAIContent (Some (sample_report ''82'')))))
             [1 \<mapsto> sample_idea])) = 200 \<and>
   map_option analysis_status (final (analyze_content (post_analyze 1)
             (reliable (Response 429 BraveNoWeb)
                       (Response 200 (OpenAIContent (Some (sample_report ''82'')))))
             [1 \<mapsto> sample_idea]) 1) = Some ''completed''"
  by (simp add: sample_defs run_defs text_defs)

lemma scores_nonneg_update:
  assumes "scores_nonneg db" and "\<forall>n. set_score p = Some (Some n) \<longrightarrow> 0 \<le> n"
  shows "scores_nonneg (db_update a db i p)"
  unfolding scores_nonneg_def
proof (intro allI impI)
  fix j r n
  assume r: "db_update a db i p j = Some r" and n: "score r = Some n"
  show "0 \<le> n"
  proof (cases "a \<and> j = i")
    case True
    with r obtain r0 where r0: "db i = Some r0" and "r = apply_patch r0 p"
      by (auto simp: db_update_apply)
    with n have "set_score p = Some (Some n) \<or> score r0 = Some n"
      by (auto simp: apply_patch_def split: option.splits)
    with assms r0 show ?thesis by (auto simp: scores_nonneg_def)
  next
    case False
    with r have "db j = Some r" by (auto simp: db_update_apply)
    with assms(1) n show ?thesis by (auto simp: scores_nonneg_def)
  qed
qed

text \<open>
  Claim C2, as amended. A non-null score is a non-negative integer, with no upper bound
  enforced. It is written only by the completing write: every write that carries a
  score also sets the status to \<^verbatim>\<open>completed\<close> and carries what the extraction
  returned for the analysis written with it, and a run that does not answer 200 leaves
  every score as it was.
\<close>

theorem score_nonneg_written_on_completion_only:
  assumes "scores_nonneg db"
  shows "scores_nonneg (final (analyze_content req env db)) \<and>
         scores_nonneg (s_final (submit_idea sreq senv db)) \<and>
         (\<forall>j p. DbUpdate j p \<in> set (events (analyze_content req env db)) \<longrightarrow>
                set_score p \<noteq> None \<longrightarrow>
                set_analysis_status p = Some ''completed'' \<and>
                (\<exists>html. set_analysis p = Some html \<and>
                        set_score p = Some (score_json (extract_score (rounding env) html)))) \<and>
         (http_status (response (analyze_content req env db)) \<noteq> 200 \<longrightarrow>
            (\<forall>j. map_option score (final (analyze_content req env db) j) = map_option score (db j)))"
proof (intro conjI)
  have a: "scores_nonneg (db_update b db i analyzing_patch)" for b i
    using assms by (rule scores_nonneg_update) (simp add: analyzing_patch_def)
  show "scores_nonneg (final (analyze_content req env db))"
  proof (cases rule: analyze_content_cases [where req = req and env = env and db = db])
    case quiet
    with assms show ?thesis by simp
  next
    case (ran i p calls)
    have "scores_nonneg (db_update (store_ok_last env)
            (db_update (store_ok_first env) db i analyzing_patch) i p)"
      by (rule scores_nonneg_update [OF a])
        (use ran(8) in \<open>auto simp: failed_patch_def completed_patch_def dest: score_json_nonneg\<close>)
    with ran show ?thesis by simp
  qed
  show "scores_nonneg (s_final (submit_idea sreq senv db))"
    using assms
    by (auto simp: submit_idea_def rejected_def Let_def scores_nonneg_def new_idea_def
        split: body.splits option.splits auth_result.splits)
  show "\<forall>j p. DbUpdate j p \<in> set (events (analyze_content req env db)) \<longrightarrow>
          set_score p \<noteq> None \<longrightarrow>
          set_analysis_status p = Some ''completed'' \<and>
          (\<exists>html. set_analysis p = Some html \<and>
                  set_score p = Some (score_json (extract_score (rounding env) html)))"
  proof (cases rule: analyze_content_cases [where req = req and env = env and db = db])
    case quiet
    then show ?thesis by simp
  next
    case (ran i p calls)
    then show ?thesis
      by (auto simp: analyzing_patch_def failed_patch_def completed_patch_def)
  qed
  show "http_status (response (analyze_content req env db)) \<noteq> 200 \<longrightarrow>
          (\<forall>j. map_option score (final (analyze_content req env db) j) = map_option score (db j))"
  proof (cases rule: analyze_content_cases [where req = req and env = env and db = db])
    case quiet
    then show ?thesis by simp
  next
    case (ran i p calls)
    then show ?thesis
      by (auto simp: db_update_apply option.map_comp comp_def)
  qed
qed

text \<open>The theorem at a run whose completion call is answered with status 503.\<close>

theorem score_nonneg_written_on_completion_only_witness:
  "scores_nonneg [1 \<mapsto> sample_completed] \<and>
   scores_nonneg (final (analyze_content (post_analyze 1)
      (reliable (Response 200 (BraveResults [])) (Response 503 OpenAIUnparsable))
      [1 \<mapsto> sample_completed])) \<and>
   (\<forall>j. map_option score (final (analyze_content (post_analyze 1)
      (reliable (Response 200 (BraveResults [])) (Response 503 OpenAIUnparsable))
      [1 \<mapsto> sample_completed]) j) = map_option score ([1 \<mapsto> sample_completed] j))"
proof -
  have h: "scores_nonneg [1 \<mapsto> sample_completed]"
    by (simp add: scores_nonneg_def sample_defs)
  have st: "http_status (response (analyze_content (post_analyze 1)
      (reliable (Response 200 (BraveResults [])) (Response 503 OpenAIUnparsable))
      [1 \<mapsto> sample_completed])) = 500"
    by (simp add: sample_defs run_defs)
  show ?thesis
    using h st score_nonneg_written_on_completion_only [OF h, of "post_analyze 1"
        "reliable (Response 200 (BraveResults [])) (Response 503 OpenAIUnparsable)"]
    by simp
qed

text \<open>
  Claim C2 as stated fails: a completion whose marker reads \<^verbatim>\<open>150/100\<close> leaves the
  row with the score 150.
\<close>

theorem score_above_100_counterexample:
  "map_option score (final (analyze_content (post_analyze 1)
             (reliable (Response 200 (BraveResults []))
                       (Response 200 (OpenAIContent (Some (sample_report ''150'')))))
             [1 \<mapsto> sample_idea]) 1) = Some (Some 150)"
  by (simp add: sample_defs run_defs text_defs)

lemma completed_has_analysis_update:
  assumes "completed_has_analysis db"
    and "set_analysis_status p = Some ''completed'' \<longrightarrow> set_analysis p \<noteq> None"
    and "set_analysis_status p \<noteq> None"
  shows "completed_has_analysis (db_update a db i p)"
  unfolding completed_has_analysis_def
proof (intro allI impI)
  fix j r
  assume r: "db_update a db i p j = Some r" and c: "analysis_status r = ''completed''"
  show "analysis r \<noteq> None"
  proof (cases "a \<and> j = i")
    case True
    with r obtain r0 where "db i = Some r0" and "r = apply_patch r0 p"
      by (auto simp: db_update_apply)
    with c assms(2,3) show ?thesis by (auto simp: apply_patch_def)
  next
    case False
    with r have "db j = Some r" by (auto simp: db_update_apply)
    with assms(1) c show ?thesis by (auto simp: completed_has_analysis_def)
  qed
qed

lemma completed_has_analysis_empty: "completed_has_analysis Map.empty"
  by (simp add: completed_has_analysis_def)

text \<open>
  Claim C3. A row whose \<^verbatim>\<open>analysis_status\<close> is \<^verbatim>\<open>completed\<close> has a non-null
  analysis: the property holds of the empty store (the lemma above), both handlers keep
  it, also in the store as it is between the orchestrator's two writes, and every write of
  \<^verbatim>\<open>completed\<close> carries the analysis text. The score is not part of the property: the
  completing write passes whatever the extraction returned, null included.
\<close>

theorem completed_rows_have_analysis:
  assumes "completed_has_analysis db"
  shows "completed_has_analysis (marked (analyze_content req env db)) \<and>
         completed_has_analysis (final (analyze_content req env db)) \<and>
         completed_has_analysis (s_final (submit_idea sreq senv db)) \<and>
         (\<forall>j p. DbUpdate j p \<in> set (events (analyze_content req env db)) \<longrightarrow>
                set_analysis_status p = Some ''completed'' \<longrightarrow> set_analysis p \<noteq> None)"
proof (intro conjI)
  have a: "completed_has_analysis (db_update b db i analyzing_patch)" for b i
    using assms by (rule completed_has_analysis_update) (simp_all add: analyzing_patch_def)
  show "completed_has_analysis (marked (analyze_content req env db))"
    by (cases rule: analyze_content_cases [where req = req and env = env and db = db]) (use assms a in simp_all)
  show "completed_has_analysis (final (analyze_content req env db))"
  proof (cases rule: analyze_content_cases [where req = req and env = env and db = db])
    case quiet
    with assms show ?thesis by simp
  next
    case (ran i p calls)
    have "completed_has_analysis (db_update (store_ok_last env)
            (db_update (store_ok_first env) db i analyzing_patch) i p)"
      by (rule completed_has_analysis_update [OF a])
        (use ran(8) in \<open>auto simp: failed_patch_def completed_patch_def\<close>)
    with ran show ?thesis by simp
  qed
  show "completed_has_analysis (s_final (submit_idea sreq senv db))"
    using assms
    by (auto simp: submit_idea_def rejected_def Let_def completed_has_analysis_def new_idea_def
        split: body.splits option.splits auth_result.splits)
  show "\<forall>j p. DbUpdate j p \<in> set (events (analyze_content req env db)) \<longrightarrow>
          set_analysis_status p = Some ''completed'' \<longrightarrow> set_analysis p \<noteq> None"
  proof (cases rule: analyze_content_cases [where req = req and env = env and db = db])
    case quiet
    then show ?thesis by simp
  next
    case (ran i p calls)
    then show ?thesis
      by (auto simp: analyzing_patch_def failed_patch_def completed_patch_def)
  qed
qed

text \<open>
  The theorem at a store with a completed row, a repeat run whose completion has no
  marker, and a second submission.
\<close>

theorem completed_rows_have_analysis_witness:
  "completed_has_analysis [1 \<mapsto> sample_completed] \<and>
   completed_has_analysis (final (analyze_content (post_analyze 1)
      (reliable (Response 200 (BraveResults [])) (Response 200 (OpenAIContent (Some (js ''<p>no marker</p>'')))))
      [1 \<mapsto> sample_completed])) \<and>
   completed_has_analysis (s_final (submit_idea (post_submit (Some ''Another idea''))
      (signed_in 2 DispatchStarted) [1 \<mapsto> sample_completed]))"
proof -
  have h: "completed_has_analysis [1 \<mapsto> sample_completed]"
    by (simp add: completed_has_analysis_def sample_defs)
  show ?thesis
    using h completed_rows_have_analysis [OF h, of "post_analyze 1"
        "reliable (Response 200 (BraveResults [])) (Response 200 (OpenAIContent (Some (js ''<p>no marker</p>''))))"
        "post_submit (Some ''Another idea'')" "signed_in 2 DispatchStarted"]
    by simp
qed

text \<open>
  Claim C4, as amended. Within one invocation the status of a row moves only forward:
  the first write can only set \<^verbatim>\<open>analyzing\<close>, the last write can only set
  \<^verbatim>\<open>completed\<close> or \<^verbatim>\<open>failed\<close>, and when the trigger names the row and both writes
  reach the store the row passes through \<^verbatim>\<open>analyzing\<close> and ends in \<^verbatim>\<open>completed\<close> or
  \<^verbatim>\<open>failed\<close>, whatever its status was before. The terminal states are therefore not
  absorbing across invocations.
\<close>

theorem status_forward_within_invocation:
  assumes "db i = Some r0"
  shows "\<exists>r1 r2. marked (analyze_content req env db) i = Some r1 \<and>
           final (analyze_content req env db) i = Some r2 \<and>
           (analysis_status r1 = analysis_status r0 \<or> analysis_status r1 = ''analyzing'') \<and>
           (analysis_status r2 = analysis_status r1 \<or> analysis_status r2 = ''completed'' \<or>
            analysis_status r2 = ''failed'') \<and>
           (a_method req \<noteq> ''OPTIONS'' \<and> a_body req = Fields (Some i) \<and> i \<noteq> 0 \<and>
            store_ok_first env \<and> store_ok_last env \<longrightarrow>
              analysis_status r1 = ''analyzing'' \<and>
              (analysis_status r2 = ''completed'' \<or> analysis_status r2 = ''failed''))"
proof (cases rule: analyze_content_cases [where req = req and env = env and db = db])
  case quiet
  with assms show ?thesis by auto
next
  case (ran k p calls)
  with assms show ?thesis by (auto simp: db_update_apply)
qed

text \<open>The theorem at a repeat trigger for a completed row.\<close>

theorem status_forward_within_invocation_witness:
  "[1 \<mapsto> sample_completed] 1 = Some sample_completed \<and>
   (\<exists>r1 r2. marked (analyze_content (post_analyze 1) (reliable FetchFailed FetchFailed)
                [1 \<mapsto> sample_completed]) 1 = Some r1 \<and>
            final (analyze_content (post_analyze 1) (reliable FetchFailed FetchFailed)
                [1 \<mapsto> sample_completed]) 1 = Some r2 \<and>
            analysis_status r1 = ''analyzing'' \<and>
            (analysis_status r2 = ''completed'' \<or> analysis_status r2 = ''failed''))"
proof -
  have h: "[1 \<mapsto> sample_completed] 1 = Some sample_completed" by simp
  have g: "a_method (post_analyze 1) \<noteq> ''OPTIONS'' \<and> a_body (post_analyze 1) = Fields (Some 1) \<and>
           (1::int) \<noteq> 0 \<and> store_ok_first (reliable FetchFailed FetchFailed) \<and>
           store_ok_last (reliable FetchFailed FetchFailed)"
    by (simp add: post_analyze_def reliable_def)
  note t = status_forward_within_invocation [where db = "[1 \<mapsto> sample_completed]" and i = 1
      and ?r0.0 = sample_completed and req = "post_analyze 1"
      and env = "reliable FetchFailed FetchFailed"]
  from t [OF h] obtain r1 r2 where
    m: "marked (analyze_content (post_analyze 1) (reliable FetchFailed FetchFailed)
       [1 \<mapsto> sample_completed]) 1 = Some r1"
    and f: "final (analyze_content (post_analyze 1) (reliable FetchFailed FetchFailed)
       [1 \<mapsto> sample_completed]) 1 = Some r2"
    and imp: "a_method (post_analyze 1) \<noteq> ''OPTIONS'' \<and> a_body (post_analyze 1) = Fields (Some 1) \<and>
         (1::int) \<noteq> 0 \<and> store_ok_first (reliable FetchFailed FetchFailed) \<and>
         store_ok_last (reliable FetchFailed FetchFailed) \<longrightarrow>
         analysis_status r1 = ''analyzing'' \<and>
         (analysis_status r2 = ''completed'' \<or> analysis_status r2 = ''failed'')"
    by (elim exE conjE)
  from imp g have c: "analysis_status r1 = ''analyzing'' \<and>
         (analysis_status r2 = ''completed'' \<or> analysis_status r2 = ''failed'')"
    by (rule mp)
  from h m f c show ?thesis by iprover
qed

text \<open>
  Claim C4 as stated fails: a repeat trigger for a completed row first rewrites its
  status to \<^verbatim>\<open>analyzing\<close>, and with the search provider unreachable the row ends in
  \<^verbatim>\<open>failed\<close>.
\<close>

theorem repeat_trigger_reenters_analyzing_counterexample:
  "map_option analysis_status ([1 \<mapsto> sample_completed] 1) = Some ''completed'' \<and>
   map_option analysis_status (marked (analyze_content (post_analyze 1)
             (reliable FetchFailed FetchFailed) [1 \<mapsto> sample_completed]) 1) = Some ''analyzing'' \<and>
   map_option analysis_status (final (analyze_content (post_analyze 1)
             (reliable FetchFailed FetchFailed) [1 \<mapsto> sample_completed]) 1) = Some ''failed''"
  by (simp add: sample_defs run_defs)

text \<open>
  Claim C6. When the run reaches the completion call and the provider answers with a
  non-success status, the handler answers 500, and the only write after the marking one
  has the payload \<^verbatim>\<open>{ analysis_status: 'failed' }\<close>: it carries neither a score nor an
  analysis. The row keeps its score and its analysis, and its status is \<^verbatim>\<open>failed\<close>
  once that write has reached the store (the write is not awaited for its result; a
  write that is lost leaves the row in \<^verbatim>\<open>analyzing\<close>).
\<close>

theorem completion_non_success_writes_failed_only:
  assumes "a_method req \<noteq> ''OPTIONS''" and "a_body req = Fields (Some i)" and "i \<noteq> 0"
    and "store_ok_first env" and "db i = Some r0"
    and "brave env = Response st b" and "search_context b = Inr ctx"
    and "openai env = Response st' b'" and "\<not> response_ok st'"
  shows "response (analyze_content req env db) =
           \<lparr>http_status = 500, reply_body = ReplyError (OpenAIStatusError st')\<rparr> \<and>
         events (analyze_content req env db) =
           [DbUpdate i analyzing_patch, SearchCall (title r0), CompletionCall (title r0) ctx,
            DbUpdate i \<lparr>set_analysis_status = Some ''failed'', set_score = None, set_analysis = None\<rparr>] \<and>
         final (analyze_content req env db) i =
           Some (r0\<lparr>analysis_status := if store_ok_last env then ''failed'' else ''analyzing''\<rparr>)"
proof -
  have p: "pipeline env (apply_patch r0 analyzing_patch) =
             (Inl (OpenAIStatusError st'), [SearchCall (title r0), CompletionCall (title r0) ctx])"
    using assms(6-9) by (simp add: pipeline_def)
  show ?thesis
    using assms(1-5) p
    by (simp add: analyze_content_def mark_analyzing_found db_update_def failed_patch_def
        apply_patch_def analyzing_patch_def)
qed

text \<open>The theorem at a completion call answered with status 503.\<close>

theorem completion_non_success_writes_failed_only_witness:
  "\<not> response_ok 503 \<and>
   response (analyze_content (post_analyze 1)
      (reliable (Response 200 (BraveResults [])) (Response 503 OpenAIUnparsable))
      [1 \<mapsto> sample_idea]) = \<lparr>http_status = 500, reply_body = ReplyError (OpenAIStatusError 503)\<rparr> \<and>
   final (analyze_content (post_analyze 1)
      (reliable (Response 200 (BraveResults [])) (Response 503 OpenAIUnparsable))
      [1 \<mapsto> sample_idea]) 1 = Some (sample_idea\<lparr>analysis_status := ''failed''\<rparr>)"
  using completion_non_success_writes_failed_only [of "post_analyze 1" 1
      "reliable (Response 200 (BraveResults [])) (Response 503 OpenAIUnparsable)"
      "[1 \<mapsto> sample_idea]" sample_idea 200 "BraveResults []" "[]" 503 OpenAIUnparsable]
  by (simp add: post_analyze_def reliable_def response_ok_def)

text \<open>
  Claim C7. A submission whose title is missing or empty is answered with status 400 and
  the error of line 28; the handler has issued no call by then (no authentication, no
  insert, no dispatch) and the store is unchanged.
\<close>

theorem empty_title_rejected_before_any_write:
  assumes "s_method req \<noteq> ''OPTIONS''" and "s_body req = Fields t" and "t = None \<or> t = Some []"
  shows "s_response (submit_idea req env db) =
           \<lparr>http_status = 400, reply_body = ReplyError (Error ''Missing required field: title'')\<rparr> \<and>
         s_events (submit_idea req env db) = [] \<and>
         s_final (submit_idea req env db) = db"
  using assms by (auto simp: submit_idea_def rejected_def)

text \<open>The theorem at a submission with the empty title.\<close>

theorem empty_title_rejected_before_any_write_witness:
  "s_response (submit_idea (post_submit (Some '''')) (signed_in 2 DispatchStarted) [1 \<mapsto> sample_idea]) =
     \<lparr>http_status = 400, reply_body = ReplyError (Error ''Missing required field: title'')\<rparr> \<and>
   s_events (submit_idea (post_submit (Some '''')) (signed_in 2 DispatchStarted) [1 \<mapsto> sample_idea]) = [] \<and>
   s_final (submit_idea (post_submit (Some '''')) (signed_in 2 DispatchStarted) [1 \<mapsto> sample_idea]) =
     [1 \<mapsto> sample_idea]"
  using empty_title_rejected_before_any_write [of "post_submit (Some '''')" "Some ''''"
      "signed_in 2 DispatchStarted" "[1 \<mapsto> sample_idea]"]
  by (simp add: post_submit_def)

text \<open>
  Claim C8, as amended. A submission with a non-empty title by an authenticated user,
  whose insert succeeds, persists a new row with \<^verbatim>\<open>analysis_status = 'analyzing'\<close> and
  \<^verbatim>\<open>project_status = 'New'\<close> (capitalised, as the dashboard's status list has it),
  dispatches the analysis for the row's identifier and answers 201 with the row. The
  answer, the store and the calls issued are the same for every outcome of the
  dispatch, which only decides the line that is logged.
\<close>

theorem submission_persists_analyzing_row:
  assumes "s_method req \<noteq> ''OPTIONS''" and "s_body req = Fields (Some t)" and "t \<noteq> []"
    and "auth env = User u" and "insert_ok env" and "db (new_id env) = None"
  shows "s_final (submit_idea req env db) =
           db(new_id env \<mapsto> \<lparr>title = t, user_id = u, analysis_status = ''analyzing'',
                               project_status = ''New'', score = None, analysis = None\<rparr>) \<and>
         s_response (submit_idea req env db) =
           \<lparr>http_status = 201,
            reply_body = ReplyIdea (new_id env)
              \<lparr>title = t, user_id = u, analysis_status = ''analyzing'',
               project_status = ''New'', score = None, analysis = None\<rparr>\<rparr> \<and>
         s_events (submit_idea req env db) =
           [AuthGetUser,
            DbInsert \<lparr>title = t, user_id = u, analysis_status = ''analyzing'',
                      project_status = ''New'', score = None, analysis = None\<rparr>,
            Invoke (new_id env)] \<and>
         (\<forall>d. s_response (submit_idea req (env\<lparr>dispatch := d\<rparr>) db) = s_response (submit_idea req env db) \<and>
              s_final (submit_idea req (env\<lparr>dispatch := d\<rparr>) db) = s_final (submit_idea req env db) \<and>
              s_events (submit_idea req (env\<lparr>dispatch := d\<rparr>) db) = s_events (submit_idea req env db) \<and>
              s_logged (submit_idea req (env\<lparr>dispatch := d\<rparr>) db) = dispatch_log d (new_id env))"
  using assms by (simp add: submit_idea_def new_idea_def Let_def)

text \<open>The theorem at a first submission whose dispatch reports an error.\<close>

theorem submission_persists_analyzing_row_witness:
  "s_final (submit_idea (post_submit (Some ''Blockchain for B2B marketing''))
      (signed_in 1 DispatchError) Map.empty) = [1 \<mapsto> sample_idea] \<and>
   s_response (submit_idea (post_submit (Some ''Blockchain for B2B marketing''))
      (signed_in 1 DispatchError) Map.empty) =
     \<lparr>http_status = 201, reply_body = ReplyIdea 1 sample_idea\<rparr> \<and>
   s_response (submit_idea (post_submit (Some ''Blockchain for B2B marketing''))
      (signed_in 1 DispatchStarted) Map.empty) =
     \<lparr>http_status = 201, reply_body = ReplyIdea 1 sample_idea\<rparr>"
proof -
  let ?req = "post_submit (Some ''Blockchain for B2B marketing'')"
  let ?env = "signed_in 1 DispatchError"
  have h1: "s_method ?req \<noteq> ''OPTIONS''" by (simp add: post_submit_def)
  have h2: "s_body ?req = Fields (Some ''Blockchain for B2B marketing'')"
    by (simp add: post_submit_def)
  have h3: "''Blockchain for B2B marketing'' \<noteq> []" by simp
  have h4: "auth ?env = User ''user-1''" by (simp add: signed_in_def)
  have h5: "insert_ok ?env" by (simp add: signed_in_def)
  have h6: "Map.empty (new_id ?env) = None" by simp
  note t = submission_persists_analyzing_row [OF h1 h2 h3 h4 h5 h6]
  have n: "new_id ?env = 1" by (simp add: signed_in_def)
  have e: "?env\<lparr>dispatch := DispatchStarted\<rparr> = signed_in 1 DispatchStarted"
    by (simp add: signed_in_def)
  have r: "\<lparr>title = ''Blockchain for B2B marketing'', user_id = ''user-1'',
            analysis_status = ''analyzing'', project_status = ''New'', score = None,
            analysis = None\<rparr> = sample_idea"
    by (simp add: sample_idea_def new_idea_def)
  from t have a: "s_final (submit_idea ?req ?env Map.empty) = [1 \<mapsto> sample_idea]"
    unfolding n r by (rule conjunct1)
  from t have b: "s_response (submit_idea ?req ?env Map.empty) =
      \<lparr>http_status = 201, reply_body = ReplyIdea 1 sample_idea\<rparr>"
    unfolding n r by blast
  from t have "s_response (submit_idea ?req (?env\<lparr>dispatch := DispatchStarted\<rparr>) Map.empty) =
      s_response (submit_idea ?req ?env Map.empty)"
    by blast
  with b e have c: "s_response (submit_idea ?req (signed_in 1 DispatchStarted) Map.empty) =
      \<lparr>http_status = 201, reply_body = ReplyIdea 1 sample_idea\<rparr>"
    by simp
  from a b c show ?thesis by blast
qed

text \<open>
  Claim C8 as stated fails on the literal: the persisted \<^verbatim>\<open>project_status\<close> is
  \<^verbatim>\<open>'New'\<close>, not \<^verbatim>\<open>'new'\<close>.
\<close>

theorem project_status_capitalised_counterexample:
  "map_option project_status (s_final (submit_idea (post_submit (Some ''Blockchain for B2B marketing''))
             (signed_in 1 DispatchStarted) Map.empty) 1) = Some ''New'' \<and>
   map_option project_status (s_final (submit_idea (post_submit (Some ''Blockchain for B2B marketing''))
             (signed_in 1 DispatchStarted) Map.empty) 1) \<noteq> Some ''new''"
  by (simp add: sample_defs submit_idea_def Let_def)

text \<open>
  Claim C10. When the completion provider answers with a success status and the content
  of the choice is null or the empty string, the handler answers 200 and its completing
  write sets \<^verbatim>\<open>completed\<close>, a null score and the fixed placeholder document as the
  analysis; the row holds these once the write has reached the store.
\<close>

theorem empty_completion_records_placeholder:
  assumes "a_method req \<noteq> ''OPTIONS''" and "a_body req = Fields (Some i)" and "i \<noteq> 0"
    and "store_ok_first env" and "db i = Some r0"
    and "brave env = Response st b" and "search_context b = Inr ctx"
    and "openai env = Response st' (OpenAIContent c)" and "response_ok st'"
    and "c = None \<or> c = Some []"
  shows "response (analyze_content req env db) = \<lparr>http_status = 200, reply_body = ReplySuccess i\<rparr> \<and>
         events (analyze_content req env db) =
           [DbUpdate i analyzing_patch, SearchCall (title r0), CompletionCall (title r0) ctx,
            DbUpdate i \<lparr>set_analysis_status = Some ''completed'', set_score = Some None,
                        set_analysis = Some (js ''<html><body>Error generating report.</body></html>'')\<rparr>] \<and>
         (store_ok_last env \<longrightarrow>
            final (analyze_content req env db) i =
              Some (r0\<lparr>analysis_status := ''completed'', score := None,
                       analysis := Some (js ''<html><body>Error generating report.</body></html>'')\<rparr>))"
proof -
  from assms(10) have c: "content_or_placeholder c = placeholder" by auto
  have p: "pipeline env (apply_patch r0 analyzing_patch) =
             (Inr (completed_patch None placeholder),
              [SearchCall (title r0), CompletionCall (title r0) ctx])"
    using assms(6-9) c
    by (simp add: pipeline_def clean_response_placeholder extract_score_placeholder)
  have q: "placeholder = js ''<html><body>Error generating report.</body></html>''"
    by (simp add: placeholder_def)
  show ?thesis
    using assms(1-5) p
    by (simp add: analyze_content_def mark_analyzing_found db_update_def completed_patch_def
        apply_patch_def analyzing_patch_def q [symmetric])
qed

text \<open>The theorem at a completion whose content is the empty string.\<close>

theorem empty_completion_records_placeholder_witness:
  "response_ok 200 \<and>
   final (analyze_content (post_analyze 1)
      (reliable (Response 200 (BraveResults [])) (Response 200 (OpenAIContent (Some []))))
      [1 \<mapsto> sample_idea]) 1 =
     Some (sample_idea\<lparr>analysis_status := ''completed'', score := None,
             analysis := Some (js ''<html><body>Error generating report.</body></html>'')\<rparr>)"
  using empty_completion_records_placeholder [of "post_analyze 1" 1
      "reliable (Response 200 (BraveResults [])) (Response 200 (OpenAIContent (Some [])))"
      "[1 \<mapsto> sample_idea]" sample_idea 200 "BraveResults []" "[]" 200 "Some []"]
  by (simp add: post_analyze_def reliable_def response_ok_def)

end
